theory Spec2Isabelle
  imports Complex_Main
begin

section \<open>Calendar manager (src/calendar\_manager.py)\<close>

text \<open>
  Datetimes are naive Python \<open>datetime\<close> values, modelled as an integer count of
  microseconds (the resolution of \<open>datetime\<close>); a \<open>timedelta\<close> is a difference of
  such counts. The SQL comparisons of the source compare ISO-8601 texts of naive datetimes,
  whose lexicographic order is the chronological one, so they are modelled by \<open><\<close> and
  \<open>\<le>\<close> on the counts. The range limits of \<open>datetime\<close> (years 1 to 9999) are not
  modelled.
\<close>

type_synonym datetime = int

definition minutes :: "int \<Rightarrow> int" where
  "minutes n = n * 60000000"

definition hours :: "int \<Rightarrow> int" where
  "hours n = n * 3600000000"

definition days :: "int \<Rightarrow> int" where
  "days n = n * 86400000000"

text \<open>A row of table \<open>appointments\<close>. \<open>status\<close> is a nullable TEXT column.\<close>

record appointment =
  appt_id :: nat
  title :: string
  description :: string
  start_datetime :: datetime
  end_datetime :: datetime
  attendees :: "string list"
  status :: "string option"
  created_by :: string
  call_log_id :: "nat option"

record availability_window =
  day_of_week :: nat
  start_time :: string
  end_time :: string
  buffer_minutes :: nat

text \<open>
  The database file: the columns that table \<open>appointments\<close> has, its rows, the
  AUTOINCREMENT counter, and the rows of \<open>availability_windows\<close>. The columns are part
  of the state because \<open>CREATE TABLE IF NOT EXISTS\<close> keeps a table that is already
  there, whatever its columns, and a statement that names a column the table lacks raises
  \<open>sqlite3.OperationalError\<close>.
\<close>

record calendar_db =
  appt_columns :: "string list"
  appointments :: "appointment list"
  appt_seq :: nat
  availability_windows :: "availability_window list"

text \<open>The columns of \<open>CREATE TABLE appointments\<close> in \<open>_init_db\<close>.\<close>

definition created_columns :: "string list" where
  "created_columns = [''id'', ''title'', ''description'', ''start_datetime'', ''end_datetime'',
     ''attendees'', ''status'', ''created_at'', ''call_log_id'']"

definition default_windows :: "availability_window list" where
  "default_windows = map (\<lambda>i. \<lparr>day_of_week = i, start_time = ''09:00'', end_time = ''17:00'',
     buffer_minutes = 15\<rparr>) [0 ..< 5]"

text \<open>
  \<open>_init_db\<close>: on a new file (\<open>None\<close>) both tables are created; on an existing
  one they are kept. The default windows are inserted when the windows table is empty.
\<close>

definition init_db :: "calendar_db option \<Rightarrow> calendar_db" where
  "init_db file =
     (case file of
        None \<Rightarrow> \<lparr>appt_columns = created_columns, appointments = [], appt_seq = 0,
                  availability_windows = default_windows\<rparr>
      | Some db \<Rightarrow> (if availability_windows db = []
                    then db\<lparr>availability_windows := default_windows\<rparr> else db))"

text \<open>
  A SELECT on \<open>appointments\<close>: it fails when it names a missing column, else returns
  the rows that satisfy the WHERE clause, in table order. The database is returned as it was.
\<close>

definition sql_select ::
  "calendar_db \<Rightarrow> string list \<Rightarrow> (appointment \<Rightarrow> bool) \<Rightarrow> (string + appointment list) \<times> calendar_db" where
  "sql_select db cols wh =
     (if set cols \<subseteq> set (appt_columns db)
      then (Inr (filter wh (appointments db)), db)
      else (Inl ''no such column'', db))"

text \<open>
  An INSERT into \<open>appointments\<close> of a row whose id is still to be assigned: it fails,
  and inserts nothing, when it names a missing column; else the row gets the next
  AUTOINCREMENT id and is appended.
\<close>

definition next_id :: "calendar_db \<Rightarrow> nat" where
  "next_id db = Suc (fold max (map appt_id (appointments db)) (appt_seq db))"

definition sql_insert ::
  "calendar_db \<Rightarrow> string list \<Rightarrow> appointment \<Rightarrow> (string + nat) \<times> calendar_db" where
  "sql_insert db cols row =
     (if set cols \<subseteq> set (appt_columns db)
      then (Inr (next_id db),
            db\<lparr>appointments := appointments db @ [row\<lparr>appt_id := next_id db\<rparr>],
               appt_seq := next_id db\<rparr>)
      else (Inl ''table appointments has no column named'', db))"

text \<open>\<open>status != 'cancelled'\<close>: NULL compared with anything is not true in SQL.\<close>

definition not_cancelled :: "appointment \<Rightarrow> bool" where
  "not_cancelled a = (case status a of None \<Rightarrow> False | Some s \<Rightarrow> s \<noteq> ''cancelled'')"

text \<open>The WHERE clause of \<open>check_availability\<close>, parameters \<open>dt\<close> and \<open>end_dt\<close>.\<close>

definition conflict_where :: "datetime \<Rightarrow> datetime \<Rightarrow> appointment \<Rightarrow> bool" where
  "conflict_where dt end_dt a =
     (not_cancelled a \<and>
      ((start_datetime a < end_dt \<and> end_datetime a > dt)
       \<or> (start_datetime a < end_dt \<and> end_datetime a > dt)
       \<or> (start_datetime a \<ge> dt \<and> end_datetime a \<le> end_dt)))"

text \<open>The WHERE clause of \<open>_suggest_alternatives\<close>.\<close>

definition probe_where :: "datetime \<Rightarrow> datetime \<Rightarrow> appointment \<Rightarrow> bool" where
  "probe_where chk end_check a =
     (not_cancelled a \<and>
      ((start_datetime a < end_check \<and> end_datetime a > chk)
       \<or> (start_datetime a < end_check \<and> end_datetime a > chk)))"

definition conflict_columns :: "string list" where
  "conflict_columns = [''id'', ''title'', ''status'', ''start_datetime'', ''end_datetime'']"

definition probe_columns :: "string list" where
  "probe_columns = [''status'', ''start_datetime'', ''end_datetime'']"

text \<open>
  The loop of \<open>_suggest_alternatives\<close>; \<open>chk\<close> is the variable \<open>check\<close>. An error
  of the query leaves the function as an exception (\<open>Inl\<close>).
\<close>

function suggest_loop ::
  "calendar_db \<Rightarrow> datetime \<Rightarrow> int \<Rightarrow> nat \<Rightarrow> datetime \<Rightarrow> datetime list \<Rightarrow> string + datetime list" where
  "suggest_loop db preferred duration limit chk suggestions =
     (if length suggestions < limit \<and> chk < preferred + days 7
      then (case fst (sql_select db probe_columns (probe_where chk (chk + minutes duration))) of
              Inl e \<Rightarrow> Inl e
            | Inr rows \<Rightarrow>
                suggest_loop db preferred duration limit (chk + hours 1)
                  (if rows = [] then suggestions @ [chk] else suggestions))
      else Inr suggestions)"
  by pat_completeness auto
termination
  by (relation "measure (\<lambda>(db, preferred, duration, limit, chk, suggestions).
        nat (preferred + days 7 - chk))") (auto simp: hours_def)

definition suggest_alternatives ::
  "calendar_db \<Rightarrow> datetime \<Rightarrow> int \<Rightarrow> nat \<Rightarrow> string + datetime list" where
  "suggest_alternatives db preferred duration limit =
     suggest_loop db preferred duration limit (preferred + hours 1) []"

text \<open>
  The dictionaries that \<open>check_availability\<close> returns: with keys \<open>available\<close>,
  \<open>conflicts\<close> (id and title of each row) and \<open>suggested_times\<close>, or, after an
  \<open>sqlite3.Error\<close>, with keys \<open>available\<close> (False) and \<open>error\<close> only.
\<close>

datatype avail_result =
  Avail bool "(nat \<times> string) list" "datetime list"
| AvailError string

fun available :: "avail_result \<Rightarrow> bool" where
  "available (Avail b cs ss) = b"
| "available (AvailError e) = False"

text \<open>
  \<open>check_availability\<close>, passing the database through: the result and the database
  after the call.
\<close>

definition check_availability ::
  "calendar_db \<Rightarrow> datetime \<Rightarrow> int \<Rightarrow> avail_result \<times> calendar_db" where
  "check_availability db dt duration_minutes =
     (let end_dt = dt + minutes duration_minutes;
          (r, db1) = sql_select db conflict_columns (conflict_where dt end_dt)
      in case r of
           Inl e \<Rightarrow> (AvailError e, db1)
         | Inr conflicts \<Rightarrow>
             if conflicts = [] then (Avail True [] [], db1)
             else (case suggest_alternatives db1 dt duration_minutes 3 of
                     Inl e \<Rightarrow> (AvailError e, db1)
                   | Inr suggestions \<Rightarrow>
                       (Avail False (map (\<lambda>c. (appt_id c, title c)) conflicts) suggestions, db1)))"

text \<open>
  What \<open>book_appointment\<close> returns: the success dictionary (keys \<open>success\<close>,
  \<open>appointment_id\<close>, \<open>message\<close>; the message is the formatted start), the conflict
  dictionary (keys \<open>success\<close>, \<open>message\<close>, \<open>conflicts\<close>), or the error dictionary
  (keys \<open>success\<close>, \<open>error\<close>). Reading \<open>avail["conflicts"]\<close> from the error
  dictionary of \<open>check_availability\<close> raises \<open>KeyError\<close>, which \<open>book_appointment\<close>
  does not catch.
\<close>

datatype book_result =
  Booked nat datetime
| SlotNotAvailable "(nat \<times> string) list"
| BookError string

datatype py_error = KeyError string | TypeError | OtherError


record booking =
  b_title :: string
  b_start :: datetime
  b_duration :: int
  b_attendees :: "string list"
  b_description :: "string option"
  b_created_by :: "string option"
  b_call_log_id :: "nat option"

definition insert_columns :: "string list" where
  "insert_columns = [''title'', ''description'', ''start_datetime'', ''end_datetime'',
     ''attendees'', ''created_by'', ''call_log_id'']"

text \<open>
  The two transactions of \<open>book_appointment\<close>: the availability check, which either ends
  the call (\<open>Some\<close> of what is returned or raised) or lets it go on (\<open>None\<close>), and the
  INSERT with its commit. \<open>new_row\<close> is the tuple of values of the INSERT; column
  \<open>status\<close> is not named and takes its default \<open>'confirmed'\<close>.
\<close>

definition book_check :: "calendar_db \<Rightarrow> booking \<Rightarrow> (py_error + book_result) option \<times> calendar_db" where
  "book_check db b =
     (let (avail, db1) = check_availability db (b_start b) (b_duration b)
      in case avail of
           AvailError e \<Rightarrow> (Some (Inl (KeyError ''conflicts'')), db1)
         | Avail ok cs ss \<Rightarrow>
             if \<not> ok then (Some (Inr (SlotNotAvailable cs)), db1) else (None, db1))"

definition new_row :: "booking \<Rightarrow> appointment" where
  "new_row b =
     \<lparr>appt_id = 0, title = b_title b,
      description = (case b_description b of None \<Rightarrow> [] | Some d \<Rightarrow> d),
      start_datetime = b_start b, end_datetime = b_start b + minutes (b_duration b),
      attendees = b_attendees b, status = Some ''confirmed'',
      created_by = (case b_created_by b of None \<Rightarrow> ''system'' | Some c \<Rightarrow> c),
      call_log_id = b_call_log_id b\<rparr>"

definition book_insert :: "calendar_db \<Rightarrow> booking \<Rightarrow> (py_error + book_result) \<times> calendar_db" where
  "book_insert db b =
     (let (r, db1) = sql_insert db insert_columns (new_row b)
      in case r of
           Inl e \<Rightarrow> (Inr (BookError e), db1)
         | Inr new_id \<Rightarrow> (Inr (Booked new_id (b_start b)), db1))"

definition book_appointment :: "calendar_db \<Rightarrow> booking \<Rightarrow> (py_error + book_result) \<times> calendar_db" where
  "book_appointment db b =
     (case book_check db b of
        (Some r, db1) \<Rightarrow> (r, db1)
      | (None, db1) \<Rightarrow> book_insert db1 b)"

text \<open>Selectors of the result dictionary.\<close>

fun conflicts :: "avail_result \<Rightarrow> (nat \<times> string) list" where
  "conflicts (Avail b cs ss) = cs"
| "conflicts (AvailError e) = []"

fun suggested_times :: "avail_result \<Rightarrow> datetime list" where
  "suggested_times (Avail b cs ss) = ss"
| "suggested_times (AvailError e) = []"

subsection \<open>Notions used to state the calendar properties\<close>

text \<open>
  The conflict rule in the words of the specification: two half-open intervals
  \<open>(start, end)\<close> conflict iff \<open>existing.start < proposed.end\<close> and
  \<open>proposed.start < existing.end\<close>.
\<close>

definition half_open_overlap :: "datetime \<times> datetime \<Rightarrow> datetime \<times> datetime \<Rightarrow> bool" where
  "half_open_overlap existing proposed =
     (fst existing < snd proposed \<and> fst proposed < snd existing)"

definition interval :: "appointment \<Rightarrow> datetime \<times> datetime" where
  "interval a = (start_datetime a, end_datetime a)"



text \<open>A probe of \<open>_suggest_alternatives\<close> is accepted when its query returns no row.\<close>

definition probe_free :: "calendar_db \<Rightarrow> int \<Rightarrow> datetime \<Rightarrow> bool" where
  "probe_free db duration chk =
     (filter (probe_where chk (chk + minutes duration)) (appointments db) = [])"

text \<open>
  Two callers of \<open>book_appointment\<close> on one database file. Each call is two
  transactions (\<open>book_check\<close>, then \<open>book_insert\<close>); SQLite runs each transaction in
  isolation, and nothing in the source holds a lock from the first to the second. A
  schedule says whose transaction runs next (\<open>False\<close>: the first caller).
\<close>

datatype caller_state = NotStarted | Checked | Returned "py_error + book_result"

fun step_caller :: "calendar_db \<Rightarrow> booking \<Rightarrow> caller_state \<Rightarrow> caller_state \<times> calendar_db" where
  "step_caller db b NotStarted =
     (case book_check db b of
        (Some r, db1) \<Rightarrow> (Returned r, db1)
      | (None, db1) \<Rightarrow> (Checked, db1))"
| "step_caller db b Checked = (case book_insert db b of (r, db1) \<Rightarrow> (Returned r, db1))"
| "step_caller db b (Returned r) = (Returned r, db)"

fun run_schedule ::
  "booking \<Rightarrow> booking \<Rightarrow> bool list \<Rightarrow> calendar_db \<times> caller_state \<times> caller_state
     \<Rightarrow> calendar_db \<times> caller_state \<times> caller_state" where
  "run_schedule b1 b2 [] s = s"
| "run_schedule b1 b2 (who # sched) (db, c1, c2) =
     (if who
      then (case step_caller db b2 c2 of (c2', db') \<Rightarrow> run_schedule b1 b2 sched (db', c1, c2'))
      else (case step_caller db b1 c1 of (c1', db') \<Rightarrow> run_schedule b1 b2 sched (db', c1', c2)))"

text \<open>
  Example data: a database file whose \<open>appointments\<close> table has, besides the columns of
  \<open>_init_db\<close>, the column \<open>created_by\<close> that the INSERT names; and two requests for
  overlapping hours.
\<close>

definition db_with_created_by :: calendar_db where
  "db_with_created_by = \<lparr>appt_columns = created_columns @ [''created_by''], appointments = [],
     appt_seq = 0, availability_windows = []\<rparr>"

definition standup :: booking where
  "standup = \<lparr>b_title = ''Standup'', b_start = 0, b_duration = 60, b_attendees = [],
     b_description = None, b_created_by = None, b_call_log_id = None\<rparr>"

definition review :: booking where
  "review = \<lparr>b_title = ''Review'', b_start = minutes 30, b_duration = 60, b_attendees = [],
     b_description = None, b_created_by = None, b_call_log_id = None\<rparr>"

section \<open>Privacy filter (src/privacy.py)\<close>

text \<open>
  Text is a list of characters. The classes \<open>\w\<close> and \<open>\d\<close> of Python's \<open>re\<close> are
  modelled on ASCII: a word character is a letter, a digit or the underscore, and every
  other character is a non-word character.
\<close>

definition is_lower :: "char \<Rightarrow> bool" where
  "is_lower c = (c \<in> set ''abcdefghijklmnopqrstuvwxyz'')"

definition is_upper :: "char \<Rightarrow> bool" where
  "is_upper c = (c \<in> set ''ABCDEFGHIJKLMNOPQRSTUVWXYZ'')"

definition is_digit :: "char \<Rightarrow> bool" where
  "is_digit c = (c \<in> set ''0123456789'')"

definition is_word :: "char \<Rightarrow> bool" where
  "is_word c = (is_lower c \<or> is_upper c \<or> is_digit c \<or> c = CHR ''_'')"

subsection \<open>The regular expressions of the source and how \<open>re\<close> matches them\<close>

text \<open>
  The three patterns are sequences of these items: one character of a class, the
  word boundary \<open>\b\<close>, an optional character (\<open>X?\<close>, greedy) and a greedy repetition
  of a class at least \<open>n\<close> times (\<open>X{n,}\<close>; \<open>X+\<close> is \<open>X{1,}\<close>).
\<close>

datatype atom =
  Cls "char \<Rightarrow> bool"
| WordB
| Opt "char \<Rightarrow> bool"
| Rep nat "char \<Rightarrow> bool"

type_synonym regex = "atom list"

text \<open>
  A position in the subject string is the character before it (\<open>None\<close> at the start)
  and the rest of the string. \<open>\b\<close> holds where exactly one of the two neighbours is a
  word character.
\<close>

definition at_boundary :: "char option \<Rightarrow> string \<Rightarrow> bool" where
  "at_boundary prev s =
     ((case prev of None \<Rightarrow> False | Some c \<Rightarrow> is_word c)
        \<noteq> (case s of [] \<Rightarrow> False | c # _ \<Rightarrow> is_word c))"

definition prev_after :: "char option \<Rightarrow> string \<Rightarrow> nat \<Rightarrow> char option" where
  "prev_after prev s n = (if n = 0 then prev else Some (last (take n s)))"

text \<open>
  The lengths an item can consume at a position, in the order in which the backtracking
  matcher tries them (greedy: longest first).
\<close>

fun atom_lens :: "atom \<Rightarrow> char option \<Rightarrow> string \<Rightarrow> nat list" where
  "atom_lens (Cls P) prev s = (case s of [] \<Rightarrow> [] | c # _ \<Rightarrow> if P c then [1] else [])"
| "atom_lens WordB prev s = (if at_boundary prev s then [0] else [])"
| "atom_lens (Opt P) prev s = (case s of [] \<Rightarrow> [0] | c # _ \<Rightarrow> if P c then [1, 0] else [0])"
| "atom_lens (Rep n P) prev s =
     (let k = length (takeWhile P s) in if n \<le> k then rev [n ..< Suc k] else [])"

text \<open>
  The lengths of all matches of a pattern that start at a position, in the matcher's order
  of preference; the match that \<open>re\<close> reports there is the first.
\<close>

fun lens :: "regex \<Rightarrow> char option \<Rightarrow> string \<Rightarrow> nat list" where
  "lens [] prev s = [0]"
| "lens (a # r) prev s =
     concat (map (\<lambda>n. map (\<lambda>m. n + m) (lens r (prev_after prev s n) (drop n s)))
       (atom_lens a prev s))"

definition match_at :: "regex \<Rightarrow> char option \<Rightarrow> string \<Rightarrow> nat option" where
  "match_at r prev s = (case lens r prev s of [] \<Rightarrow> None | n # _ \<Rightarrow> Some n)"

text \<open>\<open>re.search\<close> finds something: some position of the string starts a match.\<close>

fun has_match :: "regex \<Rightarrow> char option \<Rightarrow> string \<Rightarrow> bool" where
  "has_match r prev [] = (match_at r prev [] \<noteq> None)"
| "has_match r prev (c # cs) = (match_at r prev (c # cs) \<noteq> None \<or> has_match r (Some c) cs)"

text \<open>
  The scan of \<open>re.sub\<close>: the leftmost match is taken, the scan goes on after it, and a
  character that starts no match is copied. The result lists the copied characters and the
  matched substrings in order. The patterns of the source match no empty string (lemma
  \<open>patterns_consume\<close>); an empty match counts here as no match.
\<close>

datatype token = Lit char | Hit string

function scan :: "regex \<Rightarrow> char option \<Rightarrow> string \<Rightarrow> token list" where
  "scan r prev [] = []"
| "scan r prev (c # cs) =
     (case match_at r prev (c # cs) of
        None \<Rightarrow> Lit c # scan r (Some c) cs
      | Some 0 \<Rightarrow> Lit c # scan r (Some c) cs
      | Some (Suc n) \<Rightarrow>
          Hit (take (Suc n) (c # cs)) # scan r (Some (last (take (Suc n) (c # cs)))) (drop n cs))"
  by pat_completeness auto
termination
  by (relation "measure (\<lambda>(r, prev, s). length s)") auto

subsection \<open>\<open>anonymize_text\<close> and \<open>deanonymize_text\<close>\<close>

text \<open>
  The dictionary \<open>mapping\<close> in insertion order; \<open>dict_set\<close> is \<open>mapping[k] = v\<close>,
  which keeps the place of a key that is already there.
\<close>

type_synonym mapping = "(string \<times> string) list"

fun dict_set :: "mapping \<Rightarrow> string \<Rightarrow> string \<Rightarrow> mapping" where
  "dict_set [] k v = [(k, v)]"
| "dict_set ((k', v') # m) k v = (if k' = k then (k, v) # m else (k', v') # dict_set m k v)"

definition upper_char :: "char \<Rightarrow> char" where
  "upper_char c =
     (case map_of (zip ''abcdefghijklmnopqrstuvwxyz'' ''ABCDEFGHIJKLMNOPQRSTUVWXYZ'') c of
        None \<Rightarrow> c | Some u \<Rightarrow> u)"

definition upper :: "string \<Rightarrow> string" where
  "upper s = map upper_char s"

text \<open>\<open>str(n)\<close> for a natural number: its decimal digits.\<close>

definition digit_char :: "nat \<Rightarrow> char" where
  "digit_char d = ''0123456789'' ! (d mod 10)"

fun str_nat :: "nat \<Rightarrow> string" where
  "str_nat n = (if n < 10 then [digit_char n] else str_nat (n div 10) @ [digit_char (n mod 10)])"

declare str_nat.simps [simp del]

text \<open>The inner function \<open>repl\<close>: the placeholder it returns and the mapping after it.\<close>

definition placeholder :: "string \<Rightarrow> nat \<Rightarrow> string" where
  "placeholder pii_type n = ''['' @ upper pii_type @ ''_'' @ str_nat n @ '']''"

definition repl :: "string \<Rightarrow> string \<Rightarrow> mapping \<Rightarrow> string \<times> mapping" where
  "repl pii_type matched m =
     (placeholder pii_type (length m), dict_set m (placeholder pii_type (length m)) matched)"

text \<open>
  \<open>re.sub(pattern, repl, text)\<close>: \<open>repl\<close> is called on each match from left to right,
  and the pieces are joined.
\<close>

fun render :: "string \<Rightarrow> token list \<Rightarrow> mapping \<Rightarrow> string \<times> mapping" where
  "render pii_type [] m = ([], m)"
| "render pii_type (Lit c # ts) m =
     (case render pii_type ts m of (out, m') \<Rightarrow> (c # out, m'))"
| "render pii_type (Hit w # ts) m =
     (case repl pii_type w m of (ph, m1) \<Rightarrow>
        (case render pii_type ts m1 of (out, m2) \<Rightarrow> (ph @ out, m2)))"

definition re_sub :: "string \<Rightarrow> regex \<Rightarrow> string \<Rightarrow> mapping \<Rightarrow> string \<times> mapping" where
  "re_sub pii_type pattern text m = render pii_type (scan pattern None text) m"

text \<open>The dictionary \<open>self.patterns\<close>, in its order.\<close>

definition email_pattern :: regex where
  "email_pattern =
     [WordB, Rep 1 (\<lambda>c. is_word c \<or> c = CHR ''.'' \<or> c = CHR ''-''), Cls (\<lambda>c. c = CHR ''@''),
      Rep 1 (\<lambda>c. is_word c \<or> c = CHR ''.'' \<or> c = CHR ''-''), Cls (\<lambda>c. c = CHR ''.''),
      Rep 1 is_word, WordB]"

definition phone_pattern :: regex where
  "phone_pattern =
     [WordB, Opt (\<lambda>c. c = CHR ''+''),
      Rep 10 (\<lambda>c. is_digit c \<or> c = CHR ''-'' \<or> c = CHR ''('' \<or> c = CHR '')''), WordB]"

definition name_pattern :: regex where
  "name_pattern =
     [WordB, Cls is_upper, Rep 1 is_lower, Cls (\<lambda>c. c = CHR '' ''), Cls is_upper,
      Rep 1 is_lower, WordB]"

definition patterns :: "(string \<times> regex) list" where
  "patterns = [(''email'', email_pattern), (''phone'', phone_pattern), (''name'', name_pattern)]"

fun anonymize_loop :: "(string \<times> regex) list \<Rightarrow> string \<Rightarrow> mapping \<Rightarrow> string \<times> mapping" where
  "anonymize_loop [] text m = (text, m)"
| "anonymize_loop ((pii_type, pattern) # ps) text m =
     (case re_sub pii_type pattern text m of (text', m') \<Rightarrow> anonymize_loop ps text' m')"

definition anonymize_text :: "string \<Rightarrow> string \<times> mapping" where
  "anonymize_text text = anonymize_loop patterns text []"

text \<open>
  \<open>str.replace(old, new)\<close>: every occurrence of \<open>old\<close>, found from the left and not
  overlapping the one before, is replaced; an empty \<open>old\<close> inserts \<open>new\<close> before every
  character and at the end.
\<close>

function replace_nonempty :: "string \<Rightarrow> string \<Rightarrow> string \<Rightarrow> string" where
  "replace_nonempty old new [] = []"
| "replace_nonempty old new (c # cs) =
     (if old \<noteq> [] \<and> take (length old) (c # cs) = old
      then new @ replace_nonempty old new (drop (length old) (c # cs))
      else c # replace_nonempty old new cs)"
  by pat_completeness auto
termination
  by (relation "measure (\<lambda>(old, new, s). length s)") auto

definition str_replace :: "string \<Rightarrow> string \<Rightarrow> string \<Rightarrow> string" where
  "str_replace old new s =
     (if old = [] then new @ concat (map (\<lambda>c. c # new) s) else replace_nonempty old new s)"

definition deanonymize_text :: "string \<Rightarrow> mapping \<Rightarrow> string" where
  "deanonymize_text anonymized m = fold (\<lambda>(ph, original) a. str_replace ph original a) m anonymized"


section \<open>Intent parsing (src/nlu\_engine.py)\<close>

text \<open>
  The values an intent dictionary holds (what \<open>json.loads\<close> yields, and \<open>datetime\<close>
  objects, which the calendar manager expects), and the dictionary as a partial map.
\<close>

datatype pyval =
  PNone
| PBool bool
| PInt int
| PFloat real
| PStr string
| PList "pyval list"
| PDatetime datetime

type_synonym pydict = "string \<rightharpoonup> pyval"

text \<open>
  \<open>str.lower\<close> on ASCII letters (no character outside ASCII lowers to an ASCII letter
  within the 8-bit range), and the substring test \<open>sub in s\<close>.
\<close>

definition lower_char :: "char \<Rightarrow> char" where
  "lower_char c =
     (case map_of (zip ''ABCDEFGHIJKLMNOPQRSTUVWXYZ'' ''abcdefghijklmnopqrstuvwxyz'') c of
        None \<Rightarrow> c | Some l \<Rightarrow> l)"

definition lower :: "string \<Rightarrow> string" where
  "lower s = map lower_char s"

fun contains :: "string \<Rightarrow> string \<Rightarrow> bool" where
  "contains sub [] = (sub = [])"
| "contains sub (c # cs) = (take (length sub) (c # cs) = sub \<or> contains sub cs)"

definition rule_based_fallback :: "string \<Rightarrow> pydict" where
  "rule_based_fallback text =
     (let text_lower = lower text in
      if contains ''available'' text_lower \<or> contains ''free'' text_lower
      then [''intent'' \<mapsto> PStr ''check_availability'', ''confidence'' \<mapsto> PFloat 0.5]
      else if contains ''book'' text_lower \<or> contains ''schedule'' text_lower
      then [''intent'' \<mapsto> PStr ''book_appointment'', ''confidence'' \<mapsto> PFloat 0.5]
      else if contains ''task'' text_lower \<or> contains ''todo'' text_lower
      then [''intent'' \<mapsto> PStr ''create_task'', ''confidence'' \<mapsto> PFloat 0.5]
      else [''intent'' \<mapsto> PStr ''unknown'', ''confidence'' \<mapsto> PFloat 0.3])"

text \<open>
  The local model (\<open>ollama.chat\<close>) and the JSON parser are outside the source. One call
  has one of four outcomes: an exception inside the outer \<open>try\<close> (the call raises, or the
  response has no message content); a content with a \<open>{...}\<close> span that \<open>json.loads\<close>
  parses (to a dictionary); a content with no such span; a content whose span raises
  \<open>JSONDecodeError\<close>.
\<close>

datatype llm_outcome =
  LlmRaises
| LlmJson pydict
| LlmNoJson string
| LlmBadJson string

text \<open>
  \<open>parse_intent\<close>, given the outcome of the call to the local model on the prompt built
  from the text and the context.
\<close>

definition parse_intent :: "llm_outcome \<Rightarrow> string \<Rightarrow> pydict" where
  "parse_intent outcome text =
     (case outcome of
        LlmRaises \<Rightarrow> rule_based_fallback text
      | LlmJson intent_data \<Rightarrow> intent_data(''confidence'' \<mapsto> PFloat 0.8)
      | LlmNoJson content \<Rightarrow>
          [''intent'' \<mapsto> PStr ''unknown'', ''text'' \<mapsto> PStr content, ''confidence'' \<mapsto> PFloat 0.8]
      | LlmBadJson content \<Rightarrow>
          [''intent'' \<mapsto> PStr ''unknown'', ''raw'' \<mapsto> PStr content, ''confidence'' \<mapsto> PFloat 0.8])"


section \<open>Cloud proxy (src/cloud\_proxy.py)\<close>

text \<open>
  The proxy's fields, the two API keys of \<open>Config\<close> (an unset or empty key is false),
  and the request that \<open>_call_openai\<close> posts: URL, Authorization header, and the payload's
  model, single user message and temperature.
\<close>

record cloud_proxy =
  enabled :: bool
  user_consent :: bool
  session_open :: bool

record config =
  OPENAI_API_KEY :: "string option"
  ANTHROPIC_API_KEY :: "string option"

definition key_set :: "string option \<Rightarrow> bool" where
  "key_set k = (case k of None \<Rightarrow> False | Some s \<Rightarrow> s \<noteq> [])"

record request =
  url :: string
  authorization :: string
  model :: string
  content :: string
  temperature :: real

text \<open>
  What one POST comes to: status 200 with a content that can be read, another status, a
  timeout, or any other exception (also a 200 response whose body lacks the content).
\<close>

datatype http_reply = Http200 string | HttpStatus nat | HttpTimeout | HttpException

text \<open>The remote provider answers the \<open>n\<close>-th attempt at a request.\<close>

type_synonym provider = "nat \<Rightarrow> request \<Rightarrow> http_reply"

definition openai_request :: "config \<Rightarrow> string \<Rightarrow> request" where
  "openai_request cfg prompt =
     \<lparr>url = ''https://api.openai.com/v1/chat/completions'',
      authorization = ''Bearer '' @ (case OPENAI_API_KEY cfg of None \<Rightarrow> ''None'' | Some k \<Rightarrow> k),
      model = ''gpt-4'', content = prompt, temperature = 0.7\<rparr>"

text \<open>
  The loop of \<open>_call_openai\<close> from attempt \<open>attempt\<close> with \<open>left\<close> attempts to go;
  \<open>sent\<close> collects the requests that left the process. With no session
  (\<open>self.session\<close> is None) the POST raises before anything is sent, and the exception is
  caught like any other. The waits between attempts are not modelled.
\<close>

fun call_openai_loop ::
  "cloud_proxy \<Rightarrow> config \<Rightarrow> provider \<Rightarrow> string \<Rightarrow> nat \<Rightarrow> nat \<Rightarrow> request list
     \<Rightarrow> string option \<times> request list" where
  "call_openai_loop px cfg remote prompt attempt 0 sent = (None, sent)"
| "call_openai_loop px cfg remote prompt attempt (Suc left) sent =
     (if \<not> session_open px
      then call_openai_loop px cfg remote prompt (Suc attempt) left sent
      else (case remote attempt (openai_request cfg prompt) of
              Http200 c \<Rightarrow> (Some c, sent @ [openai_request cfg prompt])
            | _ \<Rightarrow> call_openai_loop px cfg remote prompt (Suc attempt) left
                     (sent @ [openai_request cfg prompt])))"

definition call_openai ::
  "cloud_proxy \<Rightarrow> config \<Rightarrow> provider \<Rightarrow> string \<Rightarrow> int \<Rightarrow> string option \<times> request list" where
  "call_openai px cfg remote prompt max_retries =
     call_openai_loop px cfg remote prompt 0 (nat (max_retries + 1)) []"

text \<open>\<open>_call_anthropic\<close> is \<open>pass\<close>: it returns None and sends nothing.\<close>

definition call_anthropic ::
  "cloud_proxy \<Rightarrow> config \<Rightarrow> provider \<Rightarrow> string \<Rightarrow> int \<Rightarrow> string option \<times> request list" where
  "call_anthropic px cfg remote prompt max_retries = (None, [])"

text \<open>\<open>call_llm\<close>: the result and the requests sent to the remote provider.\<close>

definition call_llm ::
  "cloud_proxy \<Rightarrow> config \<Rightarrow> provider \<Rightarrow> string \<Rightarrow> int \<Rightarrow> string option \<times> request list" where
  "call_llm px cfg remote prompt max_retries =
     (if \<not> enabled px \<or> \<not> user_consent px then (None, [])
      else (case anonymize_text prompt of
              (anonymized, mapping) \<Rightarrow>
                if key_set (OPENAI_API_KEY cfg)
                then call_openai px cfg remote anonymized max_retries
                else if key_set (ANTHROPIC_API_KEY cfg)
                then call_anthropic px cfg remote anonymized max_retries
                else (None, [])))"


section \<open>Orchestrator (src/orchestrator.py)\<close>

text \<open>
  A session's context holds the last intent and the last response (the only keys the
  source ever writes). The orchestrator's state is the calendar's database, the cloud
  proxy and the session map.
\<close>

record session_context =
  last_intent :: pydict
  last_response :: string

record orchestrator =
  calendar :: calendar_db
  cloud :: cloud_proxy
  active_sessions :: "string \<rightharpoonup> session_context"

text \<open>
  What lies outside the source files: the local model, the remote provider, the task
  manager (module \<open>task_manager\<close> is not among the sources; \<open>create_task\<close> returns the
  new id or raises) and the library's formatting of datetimes (\<open>str\<close>, \<open>isoformat\<close>,
  \<open>strftime\<close>).
\<close>

record env =
  local_llm :: "string \<Rightarrow> session_context option \<Rightarrow> llm_outcome"
  remote :: provider
  create_task :: "pyval \<Rightarrow> pyval \<Rightarrow> pyval \<Rightarrow> py_error + nat"
  show_value :: "pyval \<Rightarrow> string"
  isoformat :: "datetime \<Rightarrow> string"
  strftime :: "datetime \<Rightarrow> string"

fun truthy :: "pyval \<Rightarrow> bool" where
  "truthy PNone = False"
| "truthy (PBool b) = b"
| "truthy (PInt i) = (i \<noteq> 0)"
| "truthy (PFloat r) = (r \<noteq> 0)"
| "truthy (PStr s) = (s \<noteq> [])"
| "truthy (PList l) = (l \<noteq> [])"
| "truthy (PDatetime t) = True"

text \<open>\<open>d.get(k, default)\<close>.\<close>

definition pyget :: "pydict \<Rightarrow> string \<Rightarrow> pyval \<Rightarrow> pyval" where
  "pyget d k dflt = (case d k of None \<Rightarrow> dflt | Some v \<Rightarrow> v)"

text \<open>
  The calls into the calendar manager with the values of the intent. The model covers a
  datetime start, an integer duration, a string title and a list of strings as attendees;
  with a value of another type the model lets the call raise \<open>TypeError\<close> (as
  \<open>dt + timedelta(...)\<close> does for a start that is not a datetime).
\<close>

fun strings_of :: "pyval list \<Rightarrow> string list option" where
  "strings_of [] = Some []"
| "strings_of (PStr s # vs) = (case strings_of vs of None \<Rightarrow> None | Some ss \<Rightarrow> Some (s # ss))"
| "strings_of (_ # vs) = None"

definition check_call ::
  "calendar_db \<Rightarrow> pyval \<Rightarrow> pyval \<Rightarrow> (py_error + avail_result) \<times> calendar_db" where
  "check_call db dt duration =
     (case (dt, duration) of
        (PDatetime t, PInt n) \<Rightarrow> (case check_availability db t n of (r, db') \<Rightarrow> (Inr r, db'))
      | _ \<Rightarrow> (Inl TypeError, db))"

definition book_call ::
  "calendar_db \<Rightarrow> pyval \<Rightarrow> pyval \<Rightarrow> pyval \<Rightarrow> pyval \<Rightarrow> (py_error + book_result) \<times> calendar_db" where
  "book_call db ttl start duration atts =
     (case (ttl, start, duration, atts) of
        (PStr s, PDatetime t, PInt n, PList vs) \<Rightarrow>
          (case strings_of vs of
             None \<Rightarrow> (Inl TypeError, db)
           | Some ss \<Rightarrow>
               book_appointment db \<lparr>b_title = s, b_start = t, b_duration = n, b_attendees = ss,
                 b_description = None, b_created_by = None, b_call_log_id = None\<rparr>)
      | _ \<Rightarrow> (Inl TypeError, db))"

text \<open>The two \<open>except\<close> clauses of \<open>_execute_intent\<close>.\<close>

definition handled :: "py_error \<Rightarrow> string" where
  "handled e =
     (case e of
        KeyError k \<Rightarrow> ''I didn't get all the details. Please provide more information.''
      | _ \<Rightarrow> ''Sorry, I encountered an error processing your request.'')"

text \<open>\<open>_execute_intent\<close>: the reply and the calendar's database after it.\<close>

definition execute_intent :: "env \<Rightarrow> calendar_db \<Rightarrow> pydict \<Rightarrow> string \<times> calendar_db" where
  "execute_intent ev db intent =
     (let intent_type = pyget intent ''intent'' (PStr ''unknown'') in
      if intent_type = PStr ''check_availability'' then
        (let dt = pyget intent ''datetime'' PNone in
         if \<not> truthy dt then (''I need a date and time to check availability.'', db)
         else (case check_call db dt (pyget intent ''duration'' (PInt 60)) of
                 (Inl e, db') \<Rightarrow> (handled e, db')
               | (Inr r, db') \<Rightarrow>
                   if available r
                   then (''Yes, '' @ show_value ev dt @ '' is available. Would you like to book it?'', db')
                   else (case suggested_times r of
                           [] \<Rightarrow> (''Sorry, no availability around that time.'', db')
                         | s # _ \<Rightarrow>
                             (''That time is not available. How about '' @ isoformat ev s @ ''?'', db'))))
      else if intent_type = PStr ''book_appointment'' then
        (case intent ''datetime'' of
           None \<Rightarrow> (handled (KeyError ''datetime''), db)
         | Some start \<Rightarrow>
             (case book_call db (pyget intent ''title'' (PStr ''Appointment'')) start
                     (pyget intent ''duration'' (PInt 60)) (pyget intent ''attendees'' (PList [])) of
                (Inl e, db') \<Rightarrow> (handled e, db')
              | (Inr (Booked i t), db') \<Rightarrow> (''Booked for '' @ strftime ev t, db')
              | (Inr (SlotNotAvailable cs), db') \<Rightarrow> (''Slot not available'', db')
              | (Inr (BookError e), db') \<Rightarrow> (handled (KeyError ''message''), db')))
      else if intent_type = PStr ''create_task'' then
        (case intent ''title'' of
           None \<Rightarrow> (handled (KeyError ''title''), db)
         | Some ttl \<Rightarrow>
             (case create_task ev ttl (pyget intent ''description'' PNone)
                     (pyget intent ''due_date'' PNone) of
                Inl e \<Rightarrow> (handled e, db)
              | Inr task_id \<Rightarrow> (''Task created with ID '' @ str_nat task_id @ ''.'', db)))
      else (''I'm not sure how to help with that. Can you rephrase?'', db))"

text \<open>
  \<open>intent_result.get("confidence", 1.0) < 0.7\<close>; comparing a value that is not a number
  raises \<open>TypeError\<close> (\<open>None\<close>).
\<close>

definition low_confidence :: "pydict \<Rightarrow> bool option" where
  "low_confidence intent =
     (case pyget intent ''confidence'' (PFloat 1.0) of
        PFloat c \<Rightarrow> Some (c < 0.7)
      | PInt i \<Rightarrow> Some (real_of_int i < 0.7)
      | PBool b \<Rightarrow> Some (b = False)
      | _ \<Rightarrow> None)"

text \<open>
  What \<open>process_text\<close> returns: the success dictionary with the response and the intent,
  or the failure dictionary.
\<close>

datatype process_result = Success string pydict | Failure string

text \<open>A session id counts when it is given and not empty (\<open>if session_id\<close>).\<close>

definition given :: "string option \<Rightarrow> bool" where
  "given session_id = (case session_id of None \<Rightarrow> False | Some s \<Rightarrow> s \<noteq> [])"

text \<open>
  \<open>process_text\<close>: the result, the orchestrator's state after the call and the requests
  sent to the remote provider during it.
\<close>

definition process_text ::
  "env \<Rightarrow> config \<Rightarrow> orchestrator \<Rightarrow> string \<Rightarrow> string option \<Rightarrow> bool
     \<Rightarrow> process_result \<times> orchestrator \<times> request list" where
  "process_text ev cfg orch text session_id use_cloud =
     (let context = (if given session_id then active_sessions orch (the session_id) else None);
          intent1 = parse_intent (local_llm ev text context) text
      in case (if use_cloud then low_confidence intent1 else Some False) of
           None \<Rightarrow> (Failure ''TypeError'', orch, [])
         | Some escalate \<Rightarrow>
             (let (cloud_result, sent) =
                    (if escalate then call_llm (cloud orch) cfg (remote ev) text 2 else (None, []));
                  intent_result =
                    (case cloud_result of
                       None \<Rightarrow> intent1
                     | Some r \<Rightarrow>
                         if r = [] then intent1
                         else (parse_intent (local_llm ev r context) r)(''source'' \<mapsto> PStr ''cloud''));
                  (response, db') = execute_intent ev (calendar orch) intent_result;
                  sessions' =
                    (if given session_id
                     then (active_sessions orch)(the session_id \<mapsto>
                            \<lparr>last_intent = intent_result, last_response = response\<rparr>)
                     else active_sessions orch)
              in (Success response intent_result,
                  orch\<lparr>calendar := db', active_sessions := sessions'\<rparr>, sent)))"


declare suggest_loop.simps [simp del]

subsection \<open>The suggestion loop\<close>

lemma hours_add: "p + hours k + hours 1 = p + hours (k + 1)"
  by (simp add: hours_def algebra_simps)

lemma hours_lt_days: "(hours k < days 7) = (k < 168)"
  by (simp add: hours_def days_def)

text \<open>
  Started at the \<open>k\<close>-th hourly probe with \<open>acc\<close> collected, the loop returns
  \<open>acc\<close> and the first accepted probes among those left, up to the limit.
\<close>

lemma suggest_loop_char:
  assumes cols: "set probe_columns \<subseteq> set (appt_columns db)"
  shows "suggest_loop db p d limit (p + hours k) acc =
           Inr (acc @ take (limit - length acc)
                  (filter (probe_free db d) (map (\<lambda>j. p + hours j) [k..167])))"
proof (induction "nat (168 - k)" arbitrary: k acc)
  case 0
  then have k: "\<not> k < 168" by simp
  then have "[k..167] = []" by simp
  then show ?case
    by (subst suggest_loop.simps) (simp add: hours_lt_days k)
next
  case (Suc n)
  then have k: "k < 168" by simp
  then have up: "[k..167] = k # [k + 1..167]" by (simp add: upto_rec1)
  have n: "n = nat (168 - (k + 1))" using Suc.hyps(2) by simp
  note IH = Suc.hyps(1) [OF n]
  have sel: "fst (sql_select db probe_columns w) = Inr (filter w (appointments db))" for w
    using cols by (simp add: sql_select_def)
  show ?case
  proof (cases "length acc < limit")
    case False
    then show ?thesis by (subst suggest_loop.simps) simp
  next
    case True
    then obtain m where m: "limit - length acc = Suc m" "limit - Suc (length acc) = m"
      by (cases "limit - length acc") auto
    show ?thesis
    proof (cases "probe_free db d (p + hours k)")
      case True
      then have "filter (probe_where (p + hours k) (p + hours k + minutes d)) (appointments db) = []"
        by (simp add: probe_free_def)
      with True \<open>length acc < limit\<close> show ?thesis
        by (subst suggest_loop.simps) (simp add: hours_lt_days k sel hours_add IH up m)
    next
      case False
      then have "filter (probe_where (p + hours k) (p + hours k + minutes d)) (appointments db) \<noteq> []"
        by (simp add: probe_free_def)
      with False \<open>length acc < limit\<close> show ?thesis
        by (subst suggest_loop.simps) (simp add: hours_lt_days k sel hours_add IH up)
    qed
  qed
qed

lemma suggest_alternatives_char:
  assumes "set probe_columns \<subseteq> set (appt_columns db)"
  shows "suggest_alternatives db p d limit =
           Inr (take limit (filter (probe_free db d) (map (\<lambda>j. p + hours j) [1..167])))"
  using suggest_loop_char [OF assms, of p d limit 1 "[]"]
  by (simp add: suggest_alternatives_def)

lemma probe_columns_subset:
  "set conflict_columns \<subseteq> set cols \<Longrightarrow> set probe_columns \<subseteq> set cols"
  by (auto simp: conflict_columns_def probe_columns_def)


subsection \<open>What the two operations compute\<close>

lemma check_availability_char:
  assumes "set conflict_columns \<subseteq> set (appt_columns db)"
  shows "fst (check_availability db dt d) =
     (let cs = filter (conflict_where dt (dt + minutes d)) (appointments db)
      in if cs = [] then Avail True [] []
         else Avail False (map (\<lambda>c. (appt_id c, title c)) cs)
                (take 3 (filter (probe_free db d) (map (\<lambda>j. dt + hours j) [1..167]))))"
  using assms suggest_alternatives_char [OF probe_columns_subset [OF assms], of dt d 3]
  by (simp add: check_availability_def sql_select_def Let_def)

lemma check_availability_no_columns:
  assumes "\<not> set conflict_columns \<subseteq> set (appt_columns db)"
  shows "fst (check_availability db dt d) = AvailError ''no such column''"
  using assms by (simp add: check_availability_def sql_select_def Let_def)

lemma check_availability_db: "snd (check_availability db dt d) = db"
  by (simp add: check_availability_def sql_select_def Let_def split: sum.splits)

lemma book_check_char:
  "book_check db b =
     (if \<not> set conflict_columns \<subseteq> set (appt_columns db)
      then (Some (Inl (KeyError ''conflicts'')), db)
      else if filter (conflict_where (b_start b) (b_start b + minutes (b_duration b)))
                (appointments db) \<noteq> []
      then (Some (Inr (SlotNotAvailable (map (\<lambda>c. (appt_id c, title c))
              (filter (conflict_where (b_start b) (b_start b + minutes (b_duration b)))
                (appointments db))))), db)
      else (None, db))"
proof -
  have "book_check db b =
     (case fst (check_availability db (b_start b) (b_duration b)) of
           AvailError e \<Rightarrow> (Some (Inl (KeyError ''conflicts'')), db)
         | Avail ok cs ss \<Rightarrow>
             if \<not> ok then (Some (Inr (SlotNotAvailable cs)), db) else (None, db))"
    using check_availability_db [of db "b_start b" "b_duration b"]
    by (cases "check_availability db (b_start b) (b_duration b)")
       (simp add: book_check_def split: avail_result.splits)
  then show ?thesis
    by (simp add: check_availability_char check_availability_no_columns Let_def)
qed

lemma book_insert_char:
  "book_insert db b =
     (if set insert_columns \<subseteq> set (appt_columns db)
      then (Inr (Booked (next_id db) (b_start b)),
            db\<lparr>appointments := appointments db @ [(new_row b)\<lparr>appt_id := next_id db\<rparr>],
               appt_seq := next_id db\<rparr>)
      else (Inr (BookError ''table appointments has no column named''), db))"
  by (simp add: book_insert_def sql_insert_def Let_def)


text \<open>One caller running both its transactions in a row is \<open>book_appointment\<close>.\<close>

lemma run_schedule_sequential:
  "run_schedule b1 b2 [False, False] (db, NotStarted, c2) =
     (snd (book_appointment db b1), Returned (fst (book_appointment db b1)), c2)"
  by (simp add: book_appointment_def split: prod.splits option.splits)

subsection \<open>Example stores\<close>

lemma cols_created_by:
  "set conflict_columns \<subseteq> set (appt_columns db_with_created_by)"
  "set insert_columns \<subseteq> set (appt_columns db_with_created_by)"
  by (simp_all add: conflict_columns_def insert_columns_def db_with_created_by_def
      created_columns_def)

lemma cols_init_db:
  "set conflict_columns \<subseteq> set (appt_columns (init_db None))"
  "\<not> set insert_columns \<subseteq> set (appt_columns (init_db None))"
  by (simp_all add: conflict_columns_def insert_columns_def init_db_def created_columns_def)





section \<open>Properties of the calendar manager\<close>








text \<open>
  Claim C10. \<open>check_availability\<close> leaves the database as it was: the appointments, the
  availability windows, the columns and the AUTOINCREMENT counter after the call are those
  before it, whether a conflict is found, none is found, or the query fails.
\<close>

theorem check_availability_read_only:
  "snd (check_availability db dt duration_minutes) = db"
  by (rule check_availability_db)




text \<open>
  Claim C1: the source does not keep its promise. \<open>book_appointment\<close> checks in one
  transaction and inserts in another, with no lock between them (its comment reads
  ``Re-check availability to avoid race''). When the two checks of two callers run before
  either INSERT, both callers succeed and the table holds two overlapping confirmed rows.
  On the table that \<open>_init_db\<close> creates, which lacks the column \<open>created_by\<close> named
  by the INSERT, neither caller succeeds and neither gets the conflict result.
\<close>

theorem concurrent_bookings_have_no_single_winner:
  "half_open_overlap (interval (new_row standup)) (interval (new_row review))
   \<and> fst (snd (run_schedule standup review [False, True, False, True]
              (db_with_created_by, NotStarted, NotStarted))) = Returned (Inr (Booked 1 0))
   \<and> snd (snd (run_schedule standup review [False, True, False, True]
              (db_with_created_by, NotStarted, NotStarted))) = Returned (Inr (Booked 2 (minutes 30)))
   \<and> map interval (appointments (fst (run_schedule standup review [False, True, False, True]
              (db_with_created_by, NotStarted, NotStarted))))
       = [(0, minutes 60), (minutes 30, minutes 90)]
   \<and> snd (run_schedule standup review [False, True, False, True]
              (init_db None, NotStarted, NotStarted))
       = (Returned (Inr (BookError ''table appointments has no column named'')),
          Returned (Inr (BookError ''table appointments has no column named'')))"
proof -
  have 0: "half_open_overlap (interval (new_row standup)) (interval (new_row review))"
    by (simp add: half_open_overlap_def interval_def new_row_def standup_def review_def
        minutes_def)
  have cols: "set insert_columns \<subseteq> set (appt_columns
      (db_with_created_by\<lparr>appointments := xs, appt_seq := n\<rparr>))" for xs n
    using cols_created_by by simp
  have run: "run_schedule standup review [False, True, False, True]
              (db_with_created_by, NotStarted, NotStarted) =
      (db_with_created_by\<lparr>appointments :=
           [(new_row standup)\<lparr>appt_id := 1\<rparr>, (new_row review)\<lparr>appt_id := 2\<rparr>], appt_seq := 2\<rparr>,
       Returned (Inr (Booked 1 0)), Returned (Inr (Booked 2 (minutes 30))))"
    apply (simp add: book_check_char book_insert_char cols_created_by)
    apply (simp add: db_with_created_by_def next_id_def insert_columns_def created_columns_def)
    apply (simp add: standup_def review_def)
    done
  have run0: "snd (run_schedule standup review [False, True, False, True]
              (init_db None, NotStarted, NotStarted))
       = (Returned (Inr (BookError ''table appointments has no column named'')),
          Returned (Inr (BookError ''table appointments has no column named'')))"
    apply (simp add: book_check_char book_insert_char cols_init_db)
    apply (simp add: init_db_def)
    done
  have 3: "map interval (appointments (fst (run_schedule standup review [False, True, False, True]
              (db_with_created_by, NotStarted, NotStarted))))
       = [(0, minutes 60), (minutes 30, minutes 90)]"
    by (simp only: run fst_conv)
       (simp add: interval_def new_row_def standup_def review_def minutes_def)
  have 1: "fst (snd (run_schedule standup review [False, True, False, True]
              (db_with_created_by, NotStarted, NotStarted))) = Returned (Inr (Booked 1 0))"
    by (simp only: run fst_conv snd_conv)
  have 2: "snd (snd (run_schedule standup review [False, True, False, True]
              (db_with_created_by, NotStarted, NotStarted))) = Returned (Inr (Booked 2 (minutes 30)))"
    by (simp only: run fst_conv snd_conv)
  from 0 1 2 3 run0 show ?thesis by blast
qed


end
